theory Spec2Isabelle
  imports Complex_Main "HOL-Library.AList" "HOL-Library.Product_Lexorder"
begin

section \<open>Errors\<close>

text \<open>
  Every exception of \<open>app.py\<close> is a value. \<open>ValueError\<close> is what \<open>float\<close>,
  \<open>NaTType.strftime\<close> and the truth value of a \<open>Series\<close> raise; \<open>MissingColumns\<close> is the
  \<open>ValueError("Missing required columns: [...]")\<close> of \<open>load_transactions\<close>, with the
  list it names; \<open>CsvError\<close> is the error of the CSV reader; \<open>UnicodeEncodeError\<close> is
  raised by a text file that cannot encode what is written to it; \<open>HTTPException\<close>
  carries the status code of the endpoint's handler.
\<close>

datatype error =
    ValueError
  | MissingColumns "string list"
  | CsvError
  | UnicodeEncodeError
  | HTTPException nat

section \<open>Python floats\<close>

text \<open>
  A Python \<open>float\<close> is an IEEE 754 binary64 number. The model keeps the exact rational value
  of a finite float, the two infinities and NaN; the two signed zeros are one value, as they
  are for \<open>==\<close>, \<open>>\<close> and \<open><\<close>, the only operations the program applies to them.
  \<open>to_double\<close> rounds a rational to the nearest binary64 number, ties to even: 53
  significant bits, the smallest exponent \<open>-1074\<close> (subnormal numbers), and infinity beyond
  the largest finite number. An addition of floats is the exact sum, rounded.
\<close>

datatype double = Fin rat | PosInf | NegInf | NaN

function bit_length :: "int \<Rightarrow> int" where
  "bit_length n = (if n \<le> 0 then 0 else 1 + bit_length (n div 2))"
  by pat_completeness auto
termination
  by (relation "measure nat") auto

declare bit_length.simps [simp del]

definition pow2 :: "int \<Rightarrow> rat" where
  "pow2 e = (if 0 \<le> e then 2 ^ nat e else 1 / 2 ^ nat (- e))"

text \<open>The exponent of the binade of a positive rational: \<open>2 ^ floor_log2 q \<le> q < 2 * 2 ^ floor_log2 q\<close>.\<close>

definition floor_log2 :: "rat \<Rightarrow> int" where
  "floor_log2 q =
     (let (a, b) = quotient_of q;
          k = bit_length a - bit_length b
      in if pow2 k \<le> q then k else k - 1)"

definition round_half_even :: "rat \<Rightarrow> int" where
  "round_half_even q =
     (let f = \<lfloor>q\<rfloor>; r = q - of_int f
      in if r < 1 / 2 then f else if 1 / 2 < r then f + 1 else if even f then f else f + 1)"

definition round_pos :: "rat \<Rightarrow> double" where
  "round_pos q =
     (let e = max (floor_log2 q - 52) (- 1074);
          m = round_half_even (q / pow2 e)
      in if 971 < e \<or> (e = 971 \<and> m = 2 ^ 53) then PosInf else Fin (of_int m * pow2 e))"

fun fneg :: "double \<Rightarrow> double" where
  "fneg (Fin q) = Fin (- q)"
| "fneg PosInf = NegInf"
| "fneg NegInf = PosInf"
| "fneg NaN = NaN"

definition to_double :: "rat \<Rightarrow> double" where
  "to_double q = (if q = 0 then Fin 0 else if 0 < q then round_pos q else fneg (round_pos (- q)))"

fun fadd :: "double \<Rightarrow> double \<Rightarrow> double" where
  "fadd (Fin a) (Fin b) = to_double (a + b)"
| "fadd NaN _ = NaN"
| "fadd _ NaN = NaN"
| "fadd PosInf NegInf = NaN"
| "fadd NegInf PosInf = NaN"
| "fadd PosInf _ = PosInf"
| "fadd _ PosInf = PosInf"
| "fadd NegInf _ = NegInf"
| "fadd _ NegInf = NegInf"

text \<open>The comparisons \<open>x > 0\<close> and \<open>x < 0\<close>: both false on NaN.\<close>

fun gt0 :: "double \<Rightarrow> bool" where
  "gt0 (Fin q) = (0 < q)"
| "gt0 PosInf = True"
| "gt0 NegInf = False"
| "gt0 NaN = False"

fun lt0 :: "double \<Rightarrow> bool" where
  "lt0 (Fin q) = (q < 0)"
| "lt0 PosInf = False"
| "lt0 NegInf = True"
| "lt0 NaN = False"

text \<open>
  \<open>Series.sum()\<close> is library code: it takes NaN as zero and hands the values to an array
  reduction, and the order in which that reduction adds depends on the length of the
  array. It is the parameter \<open>series_sum\<close> of the functions that call it.

  \<open>sequential_sum\<close> adds the values one after the other, starting from \<open>0.0\<close>. It stands
  in for \<open>Series.sum()\<close> on the example ledgers only: their buckets hold at most four
  amounts, and where a sum of theirs is rounded, the result of adding from the right is
  stated beside it.
\<close>

definition sequential_sum :: "double list \<Rightarrow> double" where
  "sequential_sum xs = foldl fadd (Fin 0) (map (\<lambda>x. if x = NaN then Fin 0 else x) xs)"

section \<open>The built-in \<open>float\<close> on strings\<close>

text \<open>
  Strings are lists of characters with code points below 256. \<open>str.strip()\<close> removes the
  characters for which \<open>str.isspace\<close> holds; \<open>float\<close> removes a smaller set, since it
  leaves the ASCII separators \<open>0x1C\<close> to \<open>0x1F\<close> in place.

  \<open>float\<close> accepts, after stripping: an optional sign, then \<open>inf\<close>, \<open>infinity\<close> or
  \<open>nan\<close> in any case, or a decimal number (digits, an optional point, digits, with at least
  one digit, and an optional exponent). One underscore may stand between two digits.
  Anything else raises \<open>ValueError\<close>, here \<open>None\<close>. The value is the decimal number
  rounded to the nearest float.
\<close>

definition is_space :: "char \<Rightarrow> bool" where
  "is_space c = (c \<in> set [CHR 0x09, CHR 0x0A, CHR 0x0B, CHR 0x0C, CHR 0x0D,
                            CHR 0x1C, CHR 0x1D, CHR 0x1E, CHR 0x1F, CHR 0x20, CHR 0x85, CHR 0xA0])"

definition is_float_space :: "char \<Rightarrow> bool" where
  "is_float_space c = (c \<in> set [CHR 0x09, CHR 0x0A, CHR 0x0B, CHR 0x0C, CHR 0x0D,
                                  CHR 0x20, CHR 0x85, CHR 0xA0])"

definition strip_with :: "(char \<Rightarrow> bool) \<Rightarrow> string \<Rightarrow> string" where
  "strip_with sp s = rev (dropWhile sp (rev (dropWhile sp s)))"

definition is_digit :: "char \<Rightarrow> bool" where
  "is_digit c = (c \<in> set ''0123456789'')"

definition digit_val :: "char \<Rightarrow> int" where
  "digit_val c = int (of_char c) - 48"

definition digits_val :: "string \<Rightarrow> int" where
  "digits_val ds = foldl (\<lambda>a c. 10 * a + digit_val c) 0 ds"

definition pow10 :: "int \<Rightarrow> rat" where
  "pow10 e = (if 0 \<le> e then 10 ^ nat e else 1 / 10 ^ nat (- e))"

definition lower :: "char \<Rightarrow> char" where
  "lower c = (let n = (of_char c :: nat) in if 65 \<le> n \<and> n \<le> 90 then char_of (n + 32) else c)"

text \<open>An underscore needs a digit before it and a digit after it; \<open>prev\<close> is the character before.\<close>

fun underscores_ok :: "char \<Rightarrow> string \<Rightarrow> bool" where
  "underscores_ok prev [] = (prev \<noteq> CHR ''_'')"
| "underscores_ok prev (c # cs) =
     (if c = CHR ''_'' then is_digit prev \<and> underscores_ok c cs
      else if prev = CHR ''_'' then is_digit c \<and> underscores_ok c cs
      else underscores_ok c cs)"

definition split_sign :: "string \<Rightarrow> bool \<times> string" where
  "split_sign s =
     (case s of
        [] \<Rightarrow> (False, [])
      | c # r \<Rightarrow> if c = CHR ''-'' then (True, r) else if c = CHR ''+'' then (False, r) else (False, s))"

definition parse_exponent :: "string \<Rightarrow> int option" where
  "parse_exponent r =
     (case r of
        [] \<Rightarrow> Some 0
      | c # r' \<Rightarrow>
          if c = CHR ''e'' \<or> c = CHR ''E'' then
            (let (neg, ds) = split_sign r'
             in if ds \<noteq> [] \<and> list_all is_digit ds
                then Some (if neg then - digits_val ds else digits_val ds)
                else None)
          else None)"

definition parse_number :: "string \<Rightarrow> rat option" where
  "parse_number s =
     (let ip = takeWhile is_digit s;
          r1 = dropWhile is_digit s;
          (fp, r2) = (case r1 of
                        [] \<Rightarrow> ([], [])
                      | c # r \<Rightarrow> if c = CHR ''.'' then (takeWhile is_digit r, dropWhile is_digit r)
                                 else ([], r1))
      in if ip = [] \<and> fp = [] then None
         else (case parse_exponent r2 of
                 None \<Rightarrow> None
               | Some e \<Rightarrow> Some (of_int (digits_val (ip @ fp)) * pow10 (e - int (length fp)))))"

definition py_float :: "string \<Rightarrow> double option" where
  "py_float s =
     (let t = strip_with is_float_space s
      in if \<not> underscores_ok (CHR 0x00) t then None
         else
           (let (neg, v) = split_sign (filter (\<lambda>c. c \<noteq> CHR ''_'') t);
                lv = map lower v
            in if lv = ''inf'' \<or> lv = ''infinity'' then Some (if neg then NegInf else PosInf)
               else if lv = ''nan'' then Some NaN
               else (case parse_number v of
                       None \<Rightarrow> None
                     | Some q \<Rightarrow> Some (if neg then fneg (to_double q) else to_double q))))"

section \<open>Amount parsing\<close>

text \<open>
  \<open>parse_german_amount\<close> is applied to the cells of the amount column, which
  \<open>read_csv(dtype=str)\<close> fills with strings, and with NaN (here \<open>None\<close>) for an empty
  field; the branch for numbers is never taken on them. A \<open>ValueError\<close> of the first
  \<open>float\<close> is caught and the fallback runs on the unstripped string with every comma and
  point removed; a \<open>ValueError\<close> of the fallback is not caught.
\<close>

definition replace_char :: "char \<Rightarrow> char \<Rightarrow> string \<Rightarrow> string" where
  "replace_char a b s = map (\<lambda>c. if c = a then b else c) s"

definition remove_char :: "char \<Rightarrow> string \<Rightarrow> string" where
  "remove_char a s = filter (\<lambda>c. c \<noteq> a) s"

definition parse_german_amount :: "string option \<Rightarrow> error + double" where
  "parse_german_amount cell =
     (case cell of
        None \<Rightarrow> Inr (Fin 0)
      | Some s \<Rightarrow>
          if s = [] then Inr (Fin 0)
          else
            (let s_clean = strip_with is_space s;
                 negative = (case s_clean of [] \<Rightarrow> False | c # _ \<Rightarrow> c = CHR ''-'');
                 s_clean = (if negative then tl s_clean else s_clean);
                 s_clean = replace_char (CHR '','') (CHR ''.'') (remove_char (CHR ''.'') s_clean)
             in case py_float s_clean of
                  Some val \<Rightarrow> Inr (if negative then fneg val else val)
                | None \<Rightarrow>
                    (case py_float (remove_char (CHR ''.'') (replace_char (CHR '','') (CHR ''.'') s)) of
                       Some val \<Rightarrow> Inr val
                     | None \<Rightarrow> Inl ValueError)))"

section \<open>Transaction hash\<close>

text \<open>
  \<open>'|'.join\<close> puts the separator between consecutive items. SHA-256 and the printing of a
  float are library code: the digest function \<open>sha256_hexdigest\<close> (on the UTF-8 bytes of its
  argument) and \<open>str\<close> of a cell value are parameters of the hash.
\<close>

fun py_join :: "string \<Rightarrow> string list \<Rightarrow> string" where
  "py_join sep [] = []"
| "py_join sep [x] = x"
| "py_join sep (x # y # ys) = x @ sep @ py_join sep (y # ys)"

definition create_transaction_hash ::
  "(string \<Rightarrow> string) \<Rightarrow> ('v \<Rightarrow> string) \<Rightarrow> 'v list \<Rightarrow> string" where
  "create_transaction_hash sha256_hexdigest str row =
     (let row_string = py_join ''|'' (map str row) in sha256_hexdigest row_string)"

section \<open>Annotation store\<close>

text \<open>
  The strings of the store come from the JSON body of a request and can hold any code
  point, a lone surrogate among them, so they are lists of code points; \<open>u\<close> gives the
  code points of a string of the rest of the development.

  An annotation is the inner dictionary \<open>{'category': ..., 'comment': ...}\<close>. The Python
  dictionary \<open>annotations\<close> keeps insertion order, and the file is rewritten in that order,
  so it is an association list: \<open>AList.update\<close> overwrites a present key in place and
  appends an absent one, as assignment to a \<open>dict\<close> does.

  The annotation file is \<open>None\<close> when it does not exist, otherwise the records
  \<open>(transaction_hash, category, comment)\<close> that were written below the header, each field as
  it was written. The writer quotes a field that holds a separator, a quote or a line
  break, and the reader undoes the quoting, so a record is read back field by field, with
  three differences that the model keeps:
  \<^item> the file is written with \<open>newline=''\<close> and read without it, so the text layer turns
    every carriage return with its line feed, and every other carriage return, inside a
    field into one line feed before the reader sees it;
  \<^item> the reader raises its error on a field longer than its limit of 131072 characters, and,
    before Python 3.11, on the character NUL; \<open>nul_ok\<close> says whether the reader accepts NUL;
  \<^item> the file is opened for writing, which empties it, and the rows are written one by one;
    UTF-8 cannot encode a surrogate, and the row that holds one raises
    \<open>UnicodeEncodeError\<close>, which leaves the header and the rows written before it.
\<close>

type_synonym ustring = "nat list"

definition u :: "string \<Rightarrow> ustring" where
  "u s = map of_char s"

record annotation =
  category :: ustring
  comment :: ustring

type_synonym annotations_file = "(ustring \<times> ustring \<times> ustring) list option"

fun universal_newlines :: "ustring \<Rightarrow> ustring" where
  "universal_newlines [] = []"
| "universal_newlines [c] = [if c = 13 then 10 else c]"
| "universal_newlines (c # d # cs) =
     (if c = 13 \<and> d = 10 then 10 # universal_newlines cs
      else if c = 13 then 10 # universal_newlines (d # cs)
      else c # universal_newlines (d # cs))"

definition field_limit :: nat where
  "field_limit = 131072"

definition readable :: "bool \<Rightarrow> ustring \<Rightarrow> bool" where
  "readable nul_ok s = (length s \<le> field_limit \<and> (if nul_ok then True else 0 \<notin> set s))"

definition encodable :: "ustring \<Rightarrow> bool" where
  "encodable s = list_all (\<lambda>c. c < 0xD800 \<or> 0xDFFF < c) s"

fun read_rows ::
  "(ustring \<times> annotation) list \<Rightarrow> (ustring \<times> ustring \<times> ustring) list \<Rightarrow> (ustring \<times> annotation) list"
where
  "read_rows annotations [] = annotations"
| "read_rows annotations ((h, c, m) # rows) =
     read_rows (AList.update h \<lparr>category = c, comment = m\<rparr> annotations) rows"

definition load_annotations :: "bool \<Rightarrow> annotations_file \<Rightarrow> error + (ustring \<times> annotation) list" where
  "load_annotations nul_ok f =
     (case f of
        None \<Rightarrow> Inr []
      | Some written \<Rightarrow>
          (let rows = map (\<lambda>(h, c, m). (universal_newlines h, universal_newlines c, universal_newlines m))
                          written
           in if list_all (\<lambda>(h, c, m). readable nul_ok h \<and> readable nul_ok c \<and> readable nul_ok m) rows
              then Inr (read_rows [] rows)
              else Inl CsvError))"

definition write_rows :: "(ustring \<times> annotation) list \<Rightarrow> (ustring \<times> ustring \<times> ustring) list" where
  "write_rows annotations = map (\<lambda>(hash_val, data). (hash_val, category data, comment data)) annotations"

text \<open>
  The dictionary part of \<open>save_annotation\<close>, between the load and the write: create the entry
  when the key is absent, then overwrite the fields that were passed.
\<close>

definition upsert_dict ::
  "ustring \<Rightarrow> ustring option \<Rightarrow> ustring option \<Rightarrow> (ustring \<times> annotation) list \<Rightarrow> (ustring \<times> annotation) list"
where
  "upsert_dict transaction_hash cat com annotations =
     (let annotations =
            (if transaction_hash \<notin> fst ` set annotations
             then AList.update transaction_hash \<lparr>category = [], comment = []\<rparr> annotations
             else annotations);
          annotations =
            (case cat of
               Some c \<Rightarrow> AList.map_entry transaction_hash (\<lambda>a. a\<lparr>category := c\<rparr>) annotations
             | None \<Rightarrow> annotations)
      in (case com of
            Some m \<Rightarrow> AList.map_entry transaction_hash (\<lambda>a. a\<lparr>comment := m\<rparr>) annotations
          | None \<Rightarrow> annotations))"

text \<open>
  \<open>save_annotation\<close> returns the file as the call leaves it and the exception it raised, if
  any. An exception of the load leaves the file as it was.
\<close>

definition save_annotation ::
  "bool \<Rightarrow> ustring \<Rightarrow> ustring option \<Rightarrow> ustring option \<Rightarrow> annotations_file
     \<Rightarrow> annotations_file \<times> error option"
where
  "save_annotation nul_ok transaction_hash cat com f =
     (case load_annotations nul_ok f of
        Inl e \<Rightarrow> (f, Some e)
      | Inr annotations \<Rightarrow>
          (let rows = write_rows (upsert_dict transaction_hash cat com annotations);
               written = takeWhile (\<lambda>(h, c, m). encodable h \<and> encodable c \<and> encodable m) rows
           in (Some written, if length written < length rows then Some UnicodeEncodeError else None)))"

section \<open>Data frames\<close>

text \<open>
  A \<open>DataFrame\<close> is its column names and its rows, each row holding one cell for each
  column. A cell is what the program puts into a frame: a string, the NaN of an empty CSV
  field, a float, a timestamp or \<open>NaT\<close>, a monthly period. A timestamp is a calendar date
  (the ledger's dates carry no time of day). Column names are taken to be distinct, as
  they are in a frame that \<open>read_csv\<close> returns.
\<close>

record timestamp =
  t_year :: int
  t_month :: nat
  t_day :: nat

datatype cell =
    Str string
  | Missing
  | Float double
  | Timestamp timestamp
  | NaT
  | Period int nat

record frame =
  columns :: "string list"
  rows :: "cell list list"

definition cell_of :: "string list \<Rightarrow> cell list \<Rightarrow> string \<Rightarrow> cell" where
  "cell_of cols row c = (case map_of (zip cols row) c of Some v \<Rightarrow> v | None \<Rightarrow> Missing)"

definition column :: "frame \<Rightarrow> string \<Rightarrow> cell list" where
  "column df c = map (\<lambda>row. cell_of (columns df) row c) (rows df)"

definition index_of :: "string \<Rightarrow> string list \<Rightarrow> nat" where
  "index_of c cols = length (takeWhile (\<lambda>x. x \<noteq> c) cols)"

text \<open>\<open>df[c] = vals\<close>: overwrites the column when the frame has it, appends it otherwise.\<close>

definition set_column :: "string \<Rightarrow> cell list \<Rightarrow> frame \<Rightarrow> frame" where
  "set_column c vals df =
     (if c \<in> set (columns df)
      then df\<lparr>rows := map2 (\<lambda>row v. row[index_of c (columns df) := v]) (rows df) vals\<rparr>
      else df\<lparr>columns := columns df @ [c], rows := map2 (\<lambda>row v. row @ [v]) (rows df) vals\<rparr>)"

definition isnull :: "cell \<Rightarrow> bool" where
  "isnull v = (v = Missing \<or> v = NaT \<or> v = Float NaN)"

definition cell_string :: "cell \<Rightarrow> string option" where
  "cell_string v = (case v of Str s \<Rightarrow> Some s | _ \<Rightarrow> None)"

text \<open>Runs a function that may raise over a list, stopping at the first exception.\<close>

fun collect :: "('a \<Rightarrow> error + 'b) \<Rightarrow> 'a list \<Rightarrow> error + 'b list" where
  "collect f [] = Inr []"
| "collect f (x # xs) =
     (case f x of
        Inl e \<Rightarrow> Inl e
      | Inr y \<Rightarrow> (case collect f xs of Inl e \<Rightarrow> Inl e | Inr ys \<Rightarrow> Inr (y # ys)))"

section \<open>Loading the ledger\<close>

text \<open>
  \<open>load_transactions\<close> starts from the frame that \<open>read_csv(sep=';', dtype=str)\<close> returns:
  cells are \<open>Str\<close> or \<open>Missing\<close>. The \<open>column_aliases\<close> of the settings file are an
  association list, \<open>None\<close> when the settings have none. \<open>pd.to_datetime(..., dayfirst=True,
  errors='coerce')\<close> is library code and a parameter: \<open>to_datetime col i\<close> is the timestamp it
  gives the \<open>i\<close>-th entry of the column \<open>col\<close>, \<open>None\<close> for \<open>NaT\<close>.
\<close>

definition rename_columns :: "(string \<times> string) list option \<Rightarrow> frame \<Rightarrow> frame" where
  "rename_columns aliases df =
     (case aliases of
        None \<Rightarrow> df
      | Some rename_map \<Rightarrow>
          df\<lparr>columns := map (\<lambda>c. case map_of rename_map c of Some alias \<Rightarrow> alias | None \<Rightarrow> c)
                             (columns df)\<rparr>)"

definition expected_columns :: "string list" where
  "expected_columns = [''date'', ''amount'', ''payer'', ''payee'', ''purpose'']"

definition required_columns :: "string list" where
  "required_columns = [''date'', ''amount'']"

definition ensure_columns :: "frame \<Rightarrow> frame" where
  "ensure_columns df =
     foldl (\<lambda>d col. if col \<in> set (columns d) then d
                     else set_column col (replicate (length (rows d)) (Str [])) d)
           df expected_columns"

text \<open>
  The check of a required column. A frame in which renaming has given two columns the name
  makes \<open>df[col]\<close> a frame, \<open>df[col].isnull().all()\<close> a \<open>Series\<close>, and the \<open>or\<close> that takes
  its truth value raise \<open>ValueError\<close>. The other column names of a frame are taken to be
  distinct.
\<close>

definition required_missing :: "frame \<Rightarrow> string \<Rightarrow> error + bool" where
  "required_missing df col =
     (if col \<in> set (columns df)
      then (if 1 < count_list (columns df) col then Inl ValueError
            else Inr (list_all isnull (column df col)))
      else Inr True)"

definition missing_columns :: "frame \<Rightarrow> error + string list" where
  "missing_columns df =
     (case collect (required_missing df) required_columns of
        Inl e \<Rightarrow> Inl e
      | Inr flags \<Rightarrow> Inr (map fst (filter snd (zip required_columns flags))))"

definition fillna_str :: "string \<Rightarrow> frame \<Rightarrow> frame" where
  "fillna_str c df =
     set_column c (map (\<lambda>v. case v of Missing \<Rightarrow> Str [] | _ \<Rightarrow> v) (column df c)) df"

definition load_transactions ::
  "(string option list \<Rightarrow> nat \<Rightarrow> timestamp option) \<Rightarrow> (string \<times> string) list option \<Rightarrow> frame
     \<Rightarrow> error + frame"
where
  "load_transactions to_datetime aliases csv =
     (let df = ensure_columns (rename_columns aliases csv)
      in case missing_columns df of
           Inl e \<Rightarrow> Inl e
         | Inr missing \<Rightarrow>
             if missing \<noteq> [] then Inl (MissingColumns missing)
             else
               (let dates = map cell_string (column df ''date'');
                    df = set_column ''date''
                           (map (\<lambda>i. case to_datetime dates i of Some t \<Rightarrow> Timestamp t | None \<Rightarrow> NaT)
                                [0..<length dates]) df
                in case collect parse_german_amount (map cell_string (column df ''amount'')) of
                     Inl e \<Rightarrow> Inl e
                   | Inr amounts \<Rightarrow>
                       Inr (fillna_str ''purpose'' (fillna_str ''payee'' (fillna_str ''payer''
                              (set_column ''amount'' (map Float amounts) df))))))"

section \<open>Monthly summary\<close>

text \<open>
  \<open>get_monthly_summary\<close> writes the column \<open>YearMonth\<close> into the frame it is given and
  returns one row for each month that occurs, in ascending order; \<open>groupby\<close> drops the rows
  whose key is \<open>NaT\<close>. The result is the frame as it is left and the summary. The first
  argument is \<open>Series.sum()\<close>.
\<close>

record monthly_row =
  YearMonth :: "int \<times> nat"
  Income :: double
  Expenses :: double
  Net :: double

definition to_period :: "cell \<Rightarrow> cell" where
  "to_period v = (case v of Timestamp t \<Rightarrow> Period (t_year t) (t_month t) | _ \<Rightarrow> NaT)"

definition row_amount :: "string list \<Rightarrow> cell list \<Rightarrow> double" where
  "row_amount cols row = (case cell_of cols row ''amount'' of Float a \<Rightarrow> a | _ \<Rightarrow> NaN)"

definition period_keys :: "cell list \<Rightarrow> (int \<times> nat) list" where
  "period_keys vs = concat (map (\<lambda>v. case v of Period y m \<Rightarrow> [(y, m)] | _ \<Rightarrow> []) vs)"

definition group_amounts :: "frame \<Rightarrow> int \<times> nat \<Rightarrow> double list" where
  "group_amounts df k =
     map (row_amount (columns df))
         (filter (\<lambda>row. cell_of (columns df) row ''YearMonth'' = Period (fst k) (snd k)) (rows df))"

text \<open>
  The same amounts read off the frame that \<open>get_monthly_summary\<close> is given: the amounts of
  the rows whose date lies in the month. \<open>frame_ok\<close> says that every row has one cell for
  each column.
\<close>

definition month_amounts :: "frame \<Rightarrow> int \<times> nat \<Rightarrow> double list" where
  "month_amounts df k =
     map (row_amount (columns df))
         (filter (\<lambda>row. to_period (cell_of (columns df) row ''date'') = Period (fst k) (snd k))
                 (rows df))"

definition frame_ok :: "frame \<Rightarrow> bool" where
  "frame_ok df = list_all (\<lambda>row. length row = length (columns df)) (rows df)"

definition summary_row :: "(double list \<Rightarrow> double) \<Rightarrow> frame \<Rightarrow> int \<times> nat \<Rightarrow> monthly_row" where
  "summary_row series_sum df k =
     (let x = group_amounts df k
      in \<lparr>YearMonth = k,
          Income = series_sum (filter gt0 x),
          Expenses = series_sum (filter lt0 x),
          Net = series_sum x\<rparr>)"

definition get_monthly_summary ::
  "(double list \<Rightarrow> double) \<Rightarrow> frame \<Rightarrow> frame \<times> monthly_row list" where
  "get_monthly_summary series_sum df0 =
     (let df = set_column ''YearMonth'' (map to_period (column df0 ''date'')) df0;
          monthly_summary = map (summary_row series_sum df)
                              (sort (remdups (period_keys (column df ''YearMonth''))))
      in (df, monthly_summary))"

text \<open>
  The endpoint \<open>/api/summary\<close>. The ledger file is \<open>None\<close> when it does not exist. Every
  exception raised inside the handler, the 404 of the missing file among them, is caught
  and raised again with status 500. When no month occurs, \<open>groupby(...).apply\<close> returns a
  frame without the column \<open>Income\<close>, and reading it raises \<open>KeyError\<close>.
\<close>

record summary =
  total_transactions :: nat
  date_range :: "(int \<times> nat) \<times> (int \<times> nat)"
  totals :: "double \<times> double \<times> double"
  monthly_data :: "monthly_row list"

definition get_summary ::
  "(double list \<Rightarrow> double) \<Rightarrow> (string option list \<Rightarrow> nat \<Rightarrow> timestamp option)
     \<Rightarrow> (string \<times> string) list option \<Rightarrow> frame option \<Rightarrow> error + summary"
where
  "get_summary series_sum to_datetime aliases csv_file =
     (case csv_file of
        None \<Rightarrow> Inl (HTTPException 500)
      | Some csv \<Rightarrow>
          (case load_transactions to_datetime aliases csv of
             Inl e \<Rightarrow> Inl (HTTPException 500)
           | Inr df \<Rightarrow>
               (let monthly_summary = snd (get_monthly_summary series_sum df)
                in if monthly_summary = [] then Inl (HTTPException 500)
                   else Inr \<lparr>total_transactions = length (rows df),
                             date_range = (YearMonth (hd monthly_summary), YearMonth (last monthly_summary)),
                             totals = (series_sum (map Income monthly_summary),
                                       series_sum (map Expenses monthly_summary),
                                       series_sum (map Net monthly_summary)),
                             monthly_data = monthly_summary\<rparr>)))"

section \<open>Transaction details\<close>

text \<open>
  \<open>str\<close> of a cell: a string is itself, NaN prints \<open>nan\<close>, a timestamp prints its date and
  midnight, a period prints year and month. Printing a float is library code,
  the parameter \<open>float_str\<close>.
\<close>

definition digit_char :: "nat \<Rightarrow> char" where
  "digit_char n = ''0123456789'' ! (n mod 10)"

definition pad2 :: "nat \<Rightarrow> string" where
  "pad2 n = [digit_char (n div 10), digit_char n]"

definition pad4 :: "int \<Rightarrow> string" where
  "pad4 y = (let n = nat y in [digit_char (n div 1000), digit_char (n div 100), digit_char (n div 10), digit_char n])"

definition py_str :: "(double \<Rightarrow> string) \<Rightarrow> cell \<Rightarrow> string" where
  "py_str float_str v =
     (case v of
        Str s \<Rightarrow> s
      | Missing \<Rightarrow> ''nan''
      | Float x \<Rightarrow> float_str x
      | Timestamp t \<Rightarrow> pad4 (t_year t) @ ''-'' @ pad2 (t_month t) @ ''-'' @ pad2 (t_day t) @ '' 00:00:00''
      | NaT \<Rightarrow> ''NaT''
      | Period y m \<Rightarrow> pad4 y @ ''-'' @ pad2 m)"

text \<open>\<open>strftime('%m-%d')\<close>: \<open>NaT\<close> has no \<open>strftime\<close> and raises \<open>ValueError\<close>.\<close>

definition strftime_md :: "cell \<Rightarrow> error + string" where
  "strftime_md v =
     (case v of
        Timestamp t \<Rightarrow> Inr (pad2 (t_month t) @ ''-'' @ pad2 (t_day t))
      | _ \<Rightarrow> Inl ValueError)"

text \<open>
  \<open>astype(str)\<close> on the column of periods: a period becomes its string. What becomes of
  a missing period is the library's choice and the parameter \<open>nat_as_str\<close>: pandas 2 makes it the
  string \<open>NaT\<close>, pandas 3 keeps it missing. A missing value is equal to nothing, itself
  included, so the comparison \<open>df['YearMonth'] == month\<close> selects no row for it.
\<close>

definition period_astype_str :: "cell \<Rightarrow> cell \<Rightarrow> cell" where
  "period_astype_str nat_as_str v =
     (case v of Period y m \<Rightarrow> Str (pad4 y @ ''-'' @ pad2 m) | _ \<Rightarrow> nat_as_str)"

definition cell_eq :: "cell \<Rightarrow> cell \<Rightarrow> bool" where
  "cell_eq a b = (if a = Missing then False else a = b)"

text \<open>
  One entry of the income list or of the expense list. \<open>tx_party\<close> is the entry's \<open>payer\<close>
  in the income list and its \<open>payee\<close> in the expense list. The frame has the columns
  \<open>date\<close> and \<open>amount\<close>, as every loaded frame has.
\<close>

record tx_detail =
  tx_hash :: string
  tx_date :: string
  tx_amount :: double
  tx_party :: string
  tx_purpose :: string
  tx_category :: ustring
  tx_comment :: ustring

definition unique :: "'a list \<Rightarrow> 'a list" where
  "unique xs = rev (remdups (rev xs))"

definition detail_entry ::
  "(string \<Rightarrow> string) \<Rightarrow> (double \<Rightarrow> string) \<Rightarrow> (ustring \<times> annotation) list \<Rightarrow> string list \<Rightarrow> string
     \<Rightarrow> cell list \<Rightarrow> error + tx_detail"
where
  "detail_entry sha256_hexdigest float_str annotations cols party row =
     (let h = create_transaction_hash sha256_hexdigest (py_str float_str) row;
          annotation = (case map_of annotations (u h) of
                          Some a \<Rightarrow> a
                        | None \<Rightarrow> \<lparr>category = [], comment = []\<rparr>)
      in case strftime_md (cell_of cols row ''date'') of
           Inl e \<Rightarrow> Inl e
         | Inr d \<Rightarrow>
             Inr \<lparr>tx_hash = h,
                  tx_date = d,
                  tx_amount = row_amount cols row,
                  tx_party = (if party \<in> set cols then py_str float_str (cell_of cols row party)
                              else []),
                  tx_purpose = (if ''purpose'' \<in> set cols
                                then py_str float_str (cell_of cols row ''purpose'') else []),
                  tx_category = category annotation,
                  tx_comment = comment annotation\<rparr>)"

text \<open>The entry of one month: the month as it stands in the column, and its two lists.\<close>

definition month_details ::
  "(string \<Rightarrow> string) \<Rightarrow> (double \<Rightarrow> string) \<Rightarrow> (ustring \<times> annotation) list \<Rightarrow> frame \<Rightarrow> cell
     \<Rightarrow> error + (cell \<times> tx_detail list \<times> tx_detail list)"
where
  "month_details sha256_hexdigest float_str annotations df month =
     (let month_data = filter (\<lambda>row. cell_eq (cell_of (columns df) row ''YearMonth'') month) (rows df);
          income_transactions = filter (\<lambda>row. gt0 (row_amount (columns df) row)) month_data;
          expense_transactions = filter (\<lambda>row. lt0 (row_amount (columns df) row)) month_data
      in case collect (detail_entry sha256_hexdigest float_str annotations (columns df) ''payer'')
                income_transactions of
           Inl e \<Rightarrow> Inl e
         | Inr income_list \<Rightarrow>
             (case collect (detail_entry sha256_hexdigest float_str annotations (columns df) ''payee'')
                     expense_transactions of
                Inl e \<Rightarrow> Inl e
              | Inr expense_list \<Rightarrow> Inr (month, income_list, expense_list)))"

text \<open>
  \<open>prepare_transaction_details\<close> overwrites the column \<open>YearMonth\<close>, loads the annotations,
  whose exception it lets pass, and assembles the months in the order of their first
  occurrence.
\<close>

definition prepare_transaction_details ::
  "(string \<Rightarrow> string) \<Rightarrow> (double \<Rightarrow> string) \<Rightarrow> cell \<Rightarrow> bool \<Rightarrow> annotations_file \<Rightarrow> frame
     \<Rightarrow> error + (cell \<times> tx_detail list \<times> tx_detail list) list"
where
  "prepare_transaction_details sha256_hexdigest float_str nat_as_str nul_ok store df0 =
     (let df = set_column ''YearMonth''
                 (map (\<lambda>v. period_astype_str nat_as_str (to_period v)) (column df0 ''date'')) df0
      in case load_annotations nul_ok store of
           Inl e \<Rightarrow> Inl e
         | Inr annotations \<Rightarrow>
             collect (month_details sha256_hexdigest float_str annotations df)
               (unique (column df ''YearMonth'')))"

section \<open>The amount format of the specification\<close>

text \<open>
  The strings the specification describes for an amount: whitespace, an optional minus
  sign, an integer part of digits and points, optionally a comma and a fraction of digits,
  whitespace. \<open>german_decimal\<close> is the number such a string denotes.
\<close>

definition digit_or_dot :: "char \<Rightarrow> bool" where
  "digit_or_dot c = (is_digit c \<or> c = CHR ''.'')"

definition german_string :: "string \<Rightarrow> bool \<Rightarrow> string \<Rightarrow> string option \<Rightarrow> string \<Rightarrow> string" where
  "german_string ws1 neg ip fr ws2 =
     ws1 @ (if neg then ''-'' else []) @ ip @ (case fr of None \<Rightarrow> [] | Some fp \<Rightarrow> CHR '','' # fp) @ ws2"

definition german_decimal :: "bool \<Rightarrow> string \<Rightarrow> string option \<Rightarrow> rat" where
  "german_decimal neg ip fr =
     (let fp = (case fr of None \<Rightarrow> [] | Some fp \<Rightarrow> fp);
          q = of_int (digits_val (filter is_digit ip @ fp)) / 10 ^ length fp
      in if neg then - q else q)"



section \<open>Exact values\<close>

text \<open>The exact value of a finite float, to compare a float sum with the sum it rounds.\<close>

fun is_fin :: "double \<Rightarrow> bool" where
  "is_fin (Fin q) = True"
| "is_fin PosInf = False"
| "is_fin NegInf = False"
| "is_fin NaN = False"

fun value_of :: "double \<Rightarrow> rat" where
  "value_of (Fin q) = q"
| "value_of PosInf = 0"
| "value_of NegInf = 0"
| "value_of NaN = 0"

section \<open>Example ledgers\<close>

text \<open>
  Three loaded ledgers: two income rows of which the second has a date that did not parse;
  four rows of one month whose amounts add without rounding; and the amounts \<open>0,1\<close>,
  \<open>-0,3\<close> and \<open>0,2\<close> in one month.
\<close>

definition nat_row_frame :: frame where
  "nat_row_frame =
     \<lparr>columns = [''date'', ''amount'', ''payer'', ''payee'', ''purpose''],
      rows = [[Timestamp \<lparr>t_year = 2024, t_month = 1, t_day = 15\<rparr>, Float (Fin 10),
                 Str ''Acme'', Str [], Str ''Pay''],
              [NaT, Float (Fin 5), Str ''Acme'', Str [], Str ''Pay'']]\<rparr>"

definition exact_frame :: frame where
  "exact_frame =
     \<lparr>columns = [''date'', ''amount'', ''payer'', ''payee'', ''purpose''],
      rows = [[Timestamp \<lparr>t_year = 2024, t_month = 1, t_day = 15\<rparr>, Float (Fin (3 / 2)),
                 Str ''Acme'', Str [], Str ''Pay''],
              [Timestamp \<lparr>t_year = 2024, t_month = 1, t_day = 20\<rparr>, Float (Fin (- (1 / 2))),
                 Str [], Str ''Shop'', Str ''Bread''],
              [Timestamp \<lparr>t_year = 2024, t_month = 1, t_day = 21\<rparr>, Float (Fin 0),
                 Str [], Str ''Bank'', Str ''Notice''],
              [Timestamp \<lparr>t_year = 2024, t_month = 1, t_day = 31\<rparr>, Float (Fin 2),
                 Str ''Acme'', Str [], Str ''Refund'']]\<rparr>"

definition rounding_frame :: frame where
  "rounding_frame =
     \<lparr>columns = [''date'', ''amount'', ''payer'', ''payee'', ''purpose''],
      rows = [[Timestamp \<lparr>t_year = 2024, t_month = 1, t_day = 15\<rparr>, Float (to_double (1 / 10)),
                 Str ''Acme'', Str [], Str ''Pay''],
              [Timestamp \<lparr>t_year = 2024, t_month = 1, t_day = 20\<rparr>, Float (to_double (- (3 / 10))),
                 Str [], Str ''Shop'', Str ''Bread''],
              [Timestamp \<lparr>t_year = 2024, t_month = 1, t_day = 31\<rparr>, Float (to_double (2 / 10)),
                 Str ''Acme'', Str [], Str ''Refund'']]\<rparr>"

section \<open>The claims on the annotation store\<close>

lemmas store_eval =
  save_annotation_def load_annotations_def upsert_dict_def write_rows_def readable_def
  field_limit_def encodable_def u_def Let_def

text \<open>
  C4, as the code has it. A comment that holds a carriage return is written as it was
  passed and read back with a line feed in its place, so the field that the store gives
  for the hash is not the field that was provided. The example of the claim holds: on a
  store with no file, saving the category \<open>Food\<close> for \<open>abc123\<close> leaves the one record
  \<open>abc123, Food,\<close> with an empty comment, which loads as the one entry of the claim.
\<close>

theorem save_annotation_carriage_return:
  "save_annotation nul_ok (u ''abc123'') None (Some (u ''a'' @ [13] @ u ''b'')) None
     = (Some [(u ''abc123'', [], u ''a'' @ [13] @ u ''b'')], None)
   \<and> load_annotations nul_ok (Some [(u ''abc123'', [], u ''a'' @ [13] @ u ''b'')])
     = Inr [(u ''abc123'', \<lparr>category = [], comment = u ''a'' @ [10] @ u ''b''\<rparr>)]
   \<and> save_annotation nul_ok (u ''abc123'') (Some (u ''Food'')) None None
     = (Some [(u ''abc123'', u ''Food'', [])], None)
   \<and> load_annotations nul_ok (Some [(u ''abc123'', u ''Food'', [])])
     = Inr [(u ''abc123'', \<lparr>category = u ''Food'', comment = []\<rparr>)]"
  by (simp add: store_eval)


text \<open>
  C10, as the code has it. The store holds an annotation for the hash \<open>a\<close>, line feed,
  \<open>b\<close>. A save for the hash \<open>a\<close>, carriage return, \<open>b\<close> appends a record whose key is read
  back as the first hash: the annotation of the other hash has changed from \<open>Rent\<close> and
  \<open>monthly\<close> to \<open>Food\<close> and nothing. And a save whose category holds a surrogate raises
  when the first row is written, after the file was emptied: the record of the other hash
  is lost.
\<close>

theorem save_annotation_other_hash_changed:
  "load_annotations nul_ok (Some [(u ''a'' @ [10] @ u ''b'', u ''Rent'', u ''monthly'')])
     = Inr [(u ''a'' @ [10] @ u ''b'', \<lparr>category = u ''Rent'', comment = u ''monthly''\<rparr>)]
   \<and> save_annotation nul_ok (u ''a'' @ [13] @ u ''b'') (Some (u ''Food'')) None
         (Some [(u ''a'' @ [10] @ u ''b'', u ''Rent'', u ''monthly'')])
     = (Some [(u ''a'' @ [10] @ u ''b'', u ''Rent'', u ''monthly''),
              (u ''a'' @ [13] @ u ''b'', u ''Food'', [])], None)
   \<and> load_annotations nul_ok
         (Some [(u ''a'' @ [10] @ u ''b'', u ''Rent'', u ''monthly''),
                (u ''a'' @ [13] @ u ''b'', u ''Food'', [])])
     = Inr [(u ''a'' @ [10] @ u ''b'', \<lparr>category = u ''Food'', comment = []\<rparr>)]
   \<and> save_annotation nul_ok (u ''h1'') (Some [0xD800]) None
         (Some [(u ''h1'', u ''Fun'', []), (u ''h2'', u ''Rent'', u ''monthly'')])
     = (Some [], Some UnicodeEncodeError)"
  by (simp add: store_eval)

section \<open>Properties of amount parsing\<close>

lemma strip_with_core:
  assumes "list_all sp ws1" "list_all sp ws2" "core \<noteq> []" "\<not> sp (hd core)" "\<not> sp (last core)"
  shows "strip_with sp (ws1 @ core @ ws2) = core"
proof -
  from assms(3) obtain c cs where core: "core = c # cs" by (cases core) auto
  with assms(4) have c: "\<not> sp c" by simp
  from assms(1) have "dropWhile sp (ws1 @ core @ ws2) = dropWhile sp (core @ ws2)"
    by (simp add: dropWhile_append2 list_all_iff)
  also have "\<dots> = core @ ws2" using core c by simp
  finally have 1: "dropWhile sp (ws1 @ core @ ws2) = core @ ws2" .
  from assms(3) obtain d ds where rcore: "rev core = d # ds" by (cases "rev core") auto
  then have "d = last core" using assms(3) by (metis last_rev list.sel(1) rev_rev_ident hd_rev)
  with assms(5) have d: "\<not> sp d" by simp
  have "dropWhile sp (rev ws2 @ rev core) = dropWhile sp (rev core)"
    by (rule dropWhile_append2) (use assms(2) in \<open>simp add: list_all_iff\<close>)
  also have "\<dots> = rev core" using rcore d by simp
  finally have 2: "dropWhile sp (rev ws2 @ rev core) = rev core" .
  show ?thesis by (simp add: strip_with_def 1 2)
qed

lemma is_digit_cases:
  "is_digit c \<longleftrightarrow> c = CHR ''0'' \<or> c = CHR ''1'' \<or> c = CHR ''2'' \<or> c = CHR ''3'' \<or> c = CHR ''4''
     \<or> c = CHR ''5'' \<or> c = CHR ''6'' \<or> c = CHR ''7'' \<or> c = CHR ''8'' \<or> c = CHR ''9''"
  by (auto simp: is_digit_def)

lemma digit_not_special:
  assumes "is_digit c"
  shows "\<not> is_space c" "\<not> is_float_space c" "c \<noteq> CHR ''.''" "c \<noteq> CHR '',''" "c \<noteq> CHR ''-''"
    "c \<noteq> CHR ''+''" "c \<noteq> CHR ''_''" "lower c = c"
  using assms by (auto simp: is_digit_cases is_space_def is_float_space_def lower_def)

lemma underscores_ok_none:
  "CHR ''_'' \<notin> set t \<Longrightarrow> p \<noteq> CHR ''_'' \<Longrightarrow> underscores_ok p t"
  by (induction t arbitrary: p) auto

lemma to_double_minus: "to_double (- q) = fneg (to_double q)"
proof -
  have inv: "fneg (fneg x) = x" for x by (cases x) simp_all
  show ?thesis by (simp add: to_double_def inv)
qed

lemma pow10_neg_length: "pow10 (- int n) = 1 / 10 ^ n"
  by (simp add: pow10_def)

text \<open>The float parser on a string of digits with at most one point.\<close>

lemma parse_number_plain:
  assumes that: "fr = None \<and> fp = [] \<or> fr = Some fp"
    and "list_all is_digit ds" "list_all is_digit fp" "ds @ fp \<noteq> []"
  shows "parse_number (ds @ (case fr of None \<Rightarrow> [] | Some fp' \<Rightarrow> CHR ''.'' # fp')) =
           Some (of_int (digits_val (ds @ (case fr of None \<Rightarrow> [] | Some fp' \<Rightarrow> fp'))) /
                 10 ^ length (case fr of None \<Rightarrow> [] | Some fp' \<Rightarrow> fp'))"
proof -
  have dot: "\<not> is_digit (CHR ''.'')" by (simp add: is_digit_def)
  from assms(2) have ds: "\<forall>x\<in>set ds. is_digit x" by (simp add: list_all_iff)
  from assms(3) have fps: "\<forall>x\<in>set fp. is_digit x" by (simp add: list_all_iff)
  from that show ?thesis
  proof
    assume a: "fr = None \<and> fp = []"
    with assms(4) have "ds \<noteq> []" by simp
    moreover have tw0: "takeWhile is_digit ds = ds" and dw0: "dropWhile is_digit ds = []"
      using ds by simp_all
    ultimately show ?thesis using a
      by (simp add: parse_number_def parse_exponent_def pow10_def Let_def tw0 dw0)
  next
    assume a: "fr = Some fp"
    have tw: "takeWhile is_digit (ds @ CHR ''.'' # fp) = ds"
      using ds dot by (simp add: takeWhile_append2)
    have dw: "dropWhile is_digit (ds @ CHR ''.'' # fp) = CHR ''.'' # fp"
      using ds dot by (simp add: dropWhile_append2)
    have tw2: "takeWhile is_digit fp = fp" using fps by simp
    have dw2: "dropWhile is_digit fp = []" using fps by simp
    from a assms(4) show ?thesis
      by (simp add: parse_number_def tw dw tw2 dw2 parse_exponent_def pow10_neg_length Let_def)
  qed
qed

lemma py_float_plain:
  assumes "list_all is_digit ds" "list_all is_digit fp" "ds @ fp \<noteq> []"
    and "fr = None \<and> fp = [] \<or> fr = Some fp"
  shows "py_float (ds @ (case fr of None \<Rightarrow> [] | Some fp' \<Rightarrow> CHR ''.'' # fp')) =
           Some (to_double (of_int (digits_val (ds @ fp)) / 10 ^ length fp))"
proof -
  let ?t = "ds @ (case fr of None \<Rightarrow> [] | Some fp' \<Rightarrow> CHR ''.'' # fp')"
  from assms(1) have ds: "\<forall>x\<in>set ds. is_digit x" by (simp add: list_all_iff)
  from assms(2) have fps: "\<forall>x\<in>set fp. is_digit x" by (simp add: list_all_iff)
  have all: "\<forall>c\<in>set ?t. is_digit c \<or> c = CHR ''.''"
    using ds fps assms(4) by (auto split: option.splits)
  have ne: "?t \<noteq> []" using assms(3,4) by (auto split: option.splits)
  have special: "\<not> is_float_space c \<and> c \<noteq> CHR ''-'' \<and> c \<noteq> CHR ''+'' \<and> c \<noteq> CHR ''_'' \<and> lower c = c
                   \<and> c \<noteq> CHR ''i'' \<and> c \<noteq> CHR ''n''"
    if "is_digit c \<or> c = CHR ''.''" for c
    using that by (auto simp: is_digit_cases is_float_space_def lower_def)
  have hd_in: "hd ?t \<in> set ?t" using ne by (rule hd_in_set)
  have last_in: "last ?t \<in> set ?t" using ne by (rule last_in_set)
  have strip: "strip_with is_float_space ?t = ?t"
  proof -
    have "\<not> is_float_space (hd ?t)" "\<not> is_float_space (last ?t)"
      using hd_in last_in all special by blast+
    with strip_with_core [of is_float_space "[]" "[]" ?t] ne show ?thesis
      by (simp del: hd_append last_append)
  qed
  have und: "CHR ''_'' \<notin> set ?t" using all special by blast
  then have "\<forall>c\<in>set ?t. c \<noteq> CHR ''_''" by blast
  then have filt: "filter (\<lambda>c. c \<noteq> CHR ''_'') ?t = ?t" by (rule filter_True)
  have uok: "underscores_ok (CHR 0x00) ?t" using und by (simp add: underscores_ok_none)
  obtain c cs where t: "?t = c # cs" using ne by (cases ?t) auto
  then have cin: "c \<in> set ?t" by (metis list.set_intros(1))
  have c: "c \<noteq> CHR ''-''" "c \<noteq> CHR ''+''" "lower c \<noteq> CHR ''i''" "lower c \<noteq> CHR ''n''"
    using all cin special by metis+
  have sgn: "split_sign ?t = (False, ?t)" using c by (simp add: split_sign_def t)
  have notinf: "map lower ?t \<noteq> ''inf''" "map lower ?t \<noteq> ''infinity''" "map lower ?t \<noteq> ''nan''"
    using c by (simp_all add: t)
  have num: "parse_number ?t = Some (of_int (digits_val (ds @ fp)) / 10 ^ length fp)"
    using parse_number_plain [OF assms(4) assms(1-3)] assms(4) by auto
  show ?thesis
    unfolding py_float_def strip Let_def filt sgn
    using uok notinf num by simp
qed

lemma remove_dot_digits_or_dots:
  "list_all digit_or_dot ip \<Longrightarrow> remove_char (CHR ''.'') ip = filter is_digit ip"
  unfolding remove_char_def
  by (induction ip) (auto simp: digit_or_dot_def digit_not_special)

lemma remove_dot_digits: "list_all is_digit fp \<Longrightarrow> remove_char (CHR ''.'') fp = fp"
  unfolding remove_char_def
  by (induction fp) (auto simp: digit_not_special)

lemma replace_comma_digits: "list_all is_digit fp \<Longrightarrow> replace_char (CHR '','') (CHR ''.'') fp = fp"
  unfolding replace_char_def
  by (induction fp) (auto simp: digit_not_special)

lemma clean_german_body:
  assumes "list_all digit_or_dot ip" "list_all is_digit (case fr of None \<Rightarrow> [] | Some fp \<Rightarrow> fp)"
  shows "replace_char (CHR '','') (CHR ''.'')
           (remove_char (CHR ''.'') (ip @ (case fr of None \<Rightarrow> [] | Some fp \<Rightarrow> CHR '','' # fp)))
         = filter is_digit ip @ (case fr of None \<Rightarrow> [] | Some fp \<Rightarrow> CHR ''.'' # fp)"
proof -
  have d: "list_all is_digit (filter is_digit ip)" by (simp add: list_all_iff)
  have 1: "remove_char (CHR ''.'') (ip @ xs) = filter is_digit ip @ remove_char (CHR ''.'') xs" for xs
    using remove_dot_digits_or_dots [OF assms(1)] by (simp add: remove_char_def)
  have 2: "replace_char (CHR '','') (CHR ''.'') (filter is_digit ip @ xs)
           = filter is_digit ip @ replace_char (CHR '','') (CHR ''.'') xs" for xs
    using replace_comma_digits [OF d] by (simp add: replace_char_def)
  show ?thesis
  proof (cases fr)
    case None
    then show ?thesis
      using remove_dot_digits_or_dots [OF assms(1)] replace_comma_digits [OF d] by simp
  next
    case (Some fp)
    with assms(2) have fp: "list_all is_digit fp" by simp
    have "remove_char (CHR ''.'') (CHR '','' # fp) = CHR '','' # fp"
      using remove_dot_digits [OF fp] by (simp add: remove_char_def)
    moreover have "replace_char (CHR '','') (CHR ''.'') (CHR '','' # fp) = CHR ''.'' # fp"
      using replace_comma_digits [OF fp] by (simp add: replace_char_def)
    ultimately show ?thesis using Some by (simp add: 1 2)
  qed
qed

lemma parse_german_amount_try:
  assumes "s \<noteq> []"
    and "core = strip_with is_space s"
    and "negative = (case core of [] \<Rightarrow> False | c # _ \<Rightarrow> c = CHR ''-'')"
    and "body = (if negative then tl core else core)"
    and "cleaned = replace_char (CHR '','') (CHR ''.'') (remove_char (CHR ''.'') body)"
    and "py_float cleaned = Some v"
  shows "parse_german_amount (Some s) = Inr (if negative then fneg v else v)"
proof -
  have "parse_german_amount (Some s) =
          (case py_float cleaned of
             Some val \<Rightarrow> Inr (if negative then fneg val else val)
           | None \<Rightarrow>
               (case py_float (remove_char (CHR ''.'') (replace_char (CHR '','') (CHR ''.'') s)) of
                  Some val \<Rightarrow> Inr val
                | None \<Rightarrow> Inl ValueError))"
    unfolding parse_german_amount_def Let_def assms(2-5)
    using assms(1) by simp
  with assms(6) show ?thesis by simp
qed

lemma parse_german_amount_format:
  assumes ws1: "list_all is_space ws1" and ws2: "list_all is_space ws2"
    and ip: "list_all digit_or_dot ip"
    and fp: "list_all is_digit (case fr of None \<Rightarrow> [] | Some fp \<Rightarrow> fp)"
    and ne: "filter is_digit ip @ (case fr of None \<Rightarrow> [] | Some fp \<Rightarrow> fp) \<noteq> []"
  shows "parse_german_amount (Some (german_string ws1 neg ip fr ws2))
           = Inr (to_double (german_decimal neg ip fr))"
proof -
  let ?fp = "case fr of None \<Rightarrow> [] | Some fp \<Rightarrow> fp"
  let ?body = "ip @ (case fr of None \<Rightarrow> [] | Some fp \<Rightarrow> CHR '','' # fp)"
  let ?core = "(if neg then ''-'' else []) @ ?body"
  let ?ds = "filter is_digit ip"
  have s: "german_string ws1 neg ip fr ws2 = ws1 @ ?core @ ws2"
    by (simp add: german_string_def)
  have body_chars: "\<forall>c\<in>set ?body. is_digit c \<or> c = CHR ''.'' \<or> c = CHR '',''"
    using ip fp by (auto simp: list_all_iff digit_or_dot_def split: option.splits)
  have body_ne: "?body \<noteq> []" using ne by (auto split: option.splits)
  then obtain b bs where body: "?body = b # bs" by (cases ?body) auto
  then have "b \<in> set ?body" by (metis list.set_intros(1))
  with body_chars have b: "is_digit b \<or> b = CHR ''.'' \<or> b = CHR '',''" by blast
  then have b_minus: "b \<noteq> CHR ''-''" by (auto simp: is_digit_cases)
  have nospace: "\<not> is_space c" if "is_digit c \<or> c = CHR ''.'' \<or> c = CHR '','' \<or> c = CHR ''-''" for c
    using that by (auto simp: is_digit_cases is_space_def)
  have core_ne: "?core \<noteq> []" using body_ne by simp
  have hd_core: "hd ?core = (if neg then CHR ''-'' else b)" by (simp add: body)
  have "last ?core = last ?body" using body_ne by simp
  moreover have "last ?body \<in> set ?body" using body_ne by (rule last_in_set)
  ultimately have last_core: "\<not> is_space (last ?core)" using body_chars nospace by metis
  have hd_space: "\<not> is_space (hd ?core)" unfolding hd_core using b nospace by auto
  have strip: "strip_with is_space (german_string ws1 neg ip fr ws2) = ?core"
    unfolding s using ws1 ws2 core_ne hd_space last_core by (rule strip_with_core)
  have negative: "(case ?core of [] \<Rightarrow> False | c # _ \<Rightarrow> c = CHR ''-'') = neg"
    using b_minus by (simp add: body)
  have rest: "(if neg then tl ?core else ?core) = ?body" by simp
  have clean: "replace_char (CHR '','') (CHR ''.'') (remove_char (CHR ''.'') ?body)
                 = ?ds @ (case fr of None \<Rightarrow> [] | Some fp \<Rightarrow> CHR ''.'' # fp)"
    using ip fp by (rule clean_german_body)
  have d: "list_all is_digit ?ds" by (simp add: list_all_iff)
  have shape: "fr = None \<and> ?fp = [] \<or> fr = Some ?fp" by (cases fr) simp_all
  have fl: "py_float (?ds @ (case fr of None \<Rightarrow> [] | Some fp \<Rightarrow> CHR ''.'' # fp))
              = Some (to_double (of_int (digits_val (?ds @ ?fp)) / 10 ^ length ?fp))"
    using d fp ne shape by (rule py_float_plain)
  have nonempty: "german_string ws1 neg ip fr ws2 \<noteq> []" using core_ne s by (metis append_is_Nil_conv)
  have "parse_german_amount (Some (german_string ws1 neg ip fr ws2))
          = Inr (if neg then fneg (to_double (of_int (digits_val (?ds @ ?fp)) / 10 ^ length ?fp))
                 else to_double (of_int (digits_val (?ds @ ?fp)) / 10 ^ length ?fp))"
    using nonempty strip [symmetric] negative [symmetric] rest [symmetric] clean [symmetric] fl
    by (rule parse_german_amount_try)
  then show ?thesis
    by (simp add: german_decimal_def Let_def to_double_minus)
qed




















section \<open>The claims on amount parsing\<close>

text \<open>
  C2. An amount string made of whitespace, an optional minus sign, an integer part of
  digits and points, an optional comma with a fraction of digits, and whitespace, with at
  least one digit in it, parses to the float nearest to the decimal number it denotes, with
  its sign: the first \<open>float\<close> of the stated algorithm succeeds on it. An empty and a
  missing amount parse to \<open>0.0\<close>. The string \<open>-45,90\<close> parses to the float nearest to
  \<open>-45.90\<close>, which is \<open>-6459850715509555 / 2 ^ 47\<close>.
\<close>

theorem parse_german_amount_german_format:
  "(list_all is_space ws1 \<and> list_all is_space ws2 \<and> list_all digit_or_dot ip
      \<and> list_all is_digit (case fr of None \<Rightarrow> [] | Some fp \<Rightarrow> fp)
      \<and> filter is_digit ip @ (case fr of None \<Rightarrow> [] | Some fp \<Rightarrow> fp) \<noteq> []
    \<longrightarrow> parse_german_amount (Some (german_string ws1 neg ip fr ws2))
          = Inr (to_double (german_decimal neg ip fr)))
   \<and> parse_german_amount (Some []) = Inr (Fin 0)
   \<and> parse_german_amount None = Inr (Fin 0)
   \<and> parse_german_amount (Some ''-45,90'') = Inr (to_double (- (4590 / 100)))
   \<and> to_double (- (4590 / 100)) = Fin (- (6459850715509555 / 2 ^ 47))"
proof (intro conjI impI)
  assume "list_all is_space ws1 \<and> list_all is_space ws2 \<and> list_all digit_or_dot ip
      \<and> list_all is_digit (case fr of None \<Rightarrow> [] | Some fp \<Rightarrow> fp)
      \<and> filter is_digit ip @ (case fr of None \<Rightarrow> [] | Some fp \<Rightarrow> fp) \<noteq> []"
  then show "parse_german_amount (Some (german_string ws1 neg ip fr ws2))
          = Inr (to_double (german_decimal neg ip fr))"
    by (intro parse_german_amount_format) simp_all
next
  show "parse_german_amount (Some []) = Inr (Fin 0)"
    by (simp add: parse_german_amount_def)
  show "parse_german_amount None = Inr (Fin 0)"
    by (simp add: parse_german_amount_def)
  have "parse_german_amount (Some (german_string [] True ''45'' (Some ''90'') []))
          = Inr (to_double (german_decimal True ''45'' (Some ''90'')))"
    by (rule parse_german_amount_format)
       (simp_all add: digit_or_dot_def is_digit_def)
  then show "parse_german_amount (Some ''-45,90'') = Inr (to_double (- (4590 / 100)))"
    by (simp add: german_string_def german_decimal_def is_digit_def digits_val_def digit_val_def)
  show "to_double (- (4590 / 100)) = Fin (- (6459850715509555 / 2 ^ 47))"
    by code_simp
qed

theorem parse_german_amount_german_format_witness:
  "list_all is_space '' '' \<and> list_all digit_or_dot ''1.234'' \<and> list_all is_digit ''56''
   \<and> filter is_digit ''1.234'' @ ''56'' \<noteq> []
   \<and> parse_german_amount (Some '' -1.234,56 '') = Inr (to_double (- (123456 / 100)))"
  using parse_german_amount_german_format [of "'' ''" "'' ''" "''1.234''" "Some ''56''" True]
  by (simp add: german_string_def german_decimal_def is_space_def digit_or_dot_def is_digit_def
      digits_val_def digit_val_def)




section \<open>The claim on the transaction hash\<close>

lemma py_join_Cons: "py_join sep (x # xs) = x @ concat (map (\<lambda>y. sep @ y) xs)"
  by (induction xs arbitrary: x) simp_all

text \<open>
  C1. The hash of a row is the digest of its printed fields in column order, the first
  field as it is and every further field after a \<open>|\<close>. It depends on nothing else: rows
  whose fields print the same, in the same order, have the same hash, so hashing a row
  twice, or two rows equal in every column, gives one digest.
\<close>

theorem create_transaction_hash_deterministic:
  "create_transaction_hash sha256_hexdigest str [] = sha256_hexdigest []
   \<and> create_transaction_hash sha256_hexdigest str (v # vs)
       = sha256_hexdigest (str v @ concat (map (\<lambda>w. ''|'' @ str w) vs))
   \<and> (map str row1 = map str row2
        \<longrightarrow> create_transaction_hash sha256_hexdigest str row1
            = create_transaction_hash sha256_hexdigest str row2)"
  by (simp add: create_transaction_hash_def py_join_Cons comp_def)

theorem create_transaction_hash_deterministic_witness:
  "map (py_str (\<lambda>x. ''1.5'')) [Str ''Acme'', Float (Fin (3 / 2)), Missing]
     = map (py_str (\<lambda>x. ''1.5'')) [Str ''Acme'', Str ''1.5'', Str ''nan'']
   \<and> create_transaction_hash rev (py_str (\<lambda>x. ''1.5'')) [Str ''Acme'', Float (Fin (3 / 2)), Missing]
     = create_transaction_hash rev (py_str (\<lambda>x. ''1.5'')) [Str ''Acme'', Str ''1.5'', Str ''nan'']"
  using create_transaction_hash_deterministic
          [of rev "py_str (\<lambda>x. ''1.5'')" _ _
              "[Str ''Acme'', Float (Fin (3 / 2)), Missing]" "[Str ''Acme'', Str ''1.5'', Str ''nan'']"]
  by (simp add: py_str_def)

section \<open>The claims on loading the ledger\<close>

lemma rows_set_column_empty: "rows df = [] \<Longrightarrow> rows (set_column c vals df) = []"
  by (simp add: set_column_def)

lemma rows_ensure_columns_empty:
  assumes "rows df = []"
  shows "rows (ensure_columns df) = []"
proof -
  have "rows (foldl (\<lambda>d col. if col \<in> set (columns d) then d
                     else set_column col (replicate (length (rows d)) (Str [])) d) d0 cs) = []"
    if "rows d0 = []" for d0 cs
    using that by (induction cs arbitrary: d0) (simp_all add: rows_set_column_empty)
  with assms show ?thesis by (simp add: ensure_columns_def)
qed

lemma columns_set_column_fresh:
  "c \<notin> set (columns df) \<Longrightarrow> columns (set_column c vals df) = columns df @ [c]"
  by (simp add: set_column_def)

lemma count_ensure_step:
  "count_list (columns (foldl (\<lambda>d col. if col \<in> set (columns d) then d
                     else set_column col (replicate (length (rows d)) (Str [])) d) d0 cs)) c
     = (if c \<in> set (columns d0) then count_list (columns d0) c
        else if c \<in> set cs then 1 else 0)"
proof (induction cs arbitrary: d0)
  case Nil
  then show ?case by (simp add: count_list_0_iff)
next
  case (Cons x xs)
  show ?case
  proof (cases "x \<in> set (columns d0)")
    case True
    with Cons.IH [of d0] show ?thesis by auto
  next
    case False
    let ?d1 = "set_column x (replicate (length (rows d0)) (Str [])) d0"
    from False have cols: "columns ?d1 = columns d0 @ [x]" by (rule columns_set_column_fresh)
    have step: "foldl (\<lambda>d col. if col \<in> set (columns d) then d
                     else set_column col (replicate (length (rows d)) (Str [])) d) d0 (x # xs)
                = foldl (\<lambda>d col. if col \<in> set (columns d) then d
                     else set_column col (replicate (length (rows d)) (Str [])) d) ?d1 xs"
      using False by simp
    show ?thesis
    proof (cases "c \<in> set (columns d0)")
      case True
      with False have "c \<noteq> x" by auto
      with True show ?thesis unfolding step Cons.IH [of ?d1] by (simp add: cols)
    next
      case notin: False
      show ?thesis
      proof (cases "c = x")
        case True
        with notin show ?thesis unfolding step Cons.IH [of ?d1] by (simp add: cols count_list_0_iff)
      next
        case False
        with notin show ?thesis unfolding step Cons.IH [of ?d1] by (simp add: cols)
      qed
    qed
  qed
qed

lemma count_ensure_columns:
  "count_list (columns (ensure_columns df)) c
     = (if c \<in> set (columns df) then count_list (columns df) c
        else if c \<in> set expected_columns then 1 else 0)"
  unfolding ensure_columns_def by (rule count_ensure_step)

lemma expected_in_ensure_columns:
  assumes "c \<in> set expected_columns"
  shows "c \<in> set (columns (ensure_columns df))"
proof (rule ccontr)
  assume "c \<notin> set (columns (ensure_columns df))"
  then have "count_list (columns (ensure_columns df)) c = 0" by (simp add: count_list_0_iff)
  with assms show False
    by (simp add: count_ensure_columns count_list_0_iff split: if_splits)
qed

lemma required_in_ensure_columns:
  "''date'' \<in> set (columns (ensure_columns df))" "''amount'' \<in> set (columns (ensure_columns df))"
  by (rule expected_in_ensure_columns, simp add: expected_columns_def)+

text \<open>
  C7, as the code has it. A ledger with a header and no rows does not load, whatever the
  header and the aliases are: both required columns are in the frame, their cells are
  vacuously all null, and \<open>load_transactions\<close> raises the error that names \<open>date\<close> and
  \<open>amount\<close> as missing; when renaming has given two columns one of these names, it raises
  the \<open>ValueError\<close> of the check instead. For the header \<open>date;amount\<close> it is the first.
  The summary endpoint answers with status 500.
\<close>

theorem get_summary_zero_rows:
  "load_transactions to_datetime aliases \<lparr>columns = cols, rows = []\<rparr>
     = Inl (if 1 < count_list (columns (rename_columns aliases \<lparr>columns = cols, rows = []\<rparr>)) ''date''
              \<or> 1 < count_list (columns (rename_columns aliases \<lparr>columns = cols, rows = []\<rparr>)) ''amount''
            then ValueError
            else MissingColumns [''date'', ''amount''])
   \<and> load_transactions to_datetime None \<lparr>columns = [''date'', ''amount''], rows = []\<rparr>
     = Inl (MissingColumns [''date'', ''amount''])
   \<and> get_summary series_sum to_datetime aliases (Some \<lparr>columns = cols, rows = []\<rparr>)
     = Inl (HTTPException 500)"
proof -
  let ?r = "rename_columns aliases \<lparr>columns = cols, rows = []\<rparr>"
  let ?df = "ensure_columns ?r"
  have "rows ?r = []"
    by (simp add: rename_columns_def split: option.splits)
  then have empty: "rows ?df = []" by (rule rows_ensure_columns_empty)
  have count: "1 < count_list (columns ?df) c \<longleftrightarrow> 1 < count_list (columns ?r) c" for c
    by (simp add: count_ensure_columns count_list_0_iff)
  have req: "required_missing ?df c
               = (if 1 < count_list (columns ?r) c then Inl ValueError else Inr True)"
    if "c \<in> set (columns ?df)" for c
  proof (cases "1 < count_list (columns ?r) c")
    case True
    with count [of c] that show ?thesis by (simp add: required_missing_def)
  next
    case False
    with count [of c] have "\<not> 1 < count_list (columns ?df) c" by simp
    with False that empty show ?thesis by (simp add: required_missing_def column_def)
  qed
  have missing: "missing_columns ?df
                   = (if 1 < count_list (columns ?r) ''date'' \<or> 1 < count_list (columns ?r) ''amount''
                      then Inl ValueError else Inr [''date'', ''amount''])"
    by (simp add: missing_columns_def required_columns_def req required_in_ensure_columns)
  have 1: "load_transactions to_datetime aliases \<lparr>columns = cols, rows = []\<rparr>
     = Inl (if 1 < count_list (columns ?r) ''date'' \<or> 1 < count_list (columns ?r) ''amount''
            then ValueError
            else MissingColumns [''date'', ''amount''])"
    by (simp add: load_transactions_def Let_def missing)
  have 2: "load_transactions to_datetime None \<lparr>columns = [''date'', ''amount''], rows = []\<rparr>
     = Inl (MissingColumns [''date'', ''amount''])"
    by (simp add: load_transactions_def ensure_columns_def expected_columns_def required_columns_def
        rename_columns_def missing_columns_def required_missing_def set_column_def column_def Let_def)
  have 3: "get_summary series_sum to_datetime aliases (Some \<lparr>columns = cols, rows = []\<rparr>)
     = Inl (HTTPException 500)"
    by (simp add: get_summary_def 1)
  from 1 2 3 show ?thesis by blast
qed

lemmas frame_eval =
  load_transactions_def ensure_columns_def expected_columns_def required_columns_def
  rename_columns_def missing_columns_def required_missing_def set_column_def column_def
  cell_of_def index_of_def isnull_def cell_string_def fillna_str_def Let_def

lemma parse_german_amount_empty:
  "parse_german_amount (Some []) = Inr (Fin 0)" "parse_german_amount None = Inr (Fin 0)"
  by (simp_all add: parse_german_amount_def)

text \<open>
  C6, as the code has it. A ledger without the column \<open>amount\<close> loads: the column is
  created with empty strings before the required columns are checked, an empty string is not
  null, and every amount becomes \<open>0.0\<close>. The same holds for a ledger without the column
  \<open>date\<close>. A column that is in the ledger with every field empty does raise the error,
  and the error names it.
\<close>

theorem load_transactions_absent_required_column:
  "load_transactions to_datetime None
       \<lparr>columns = [''date'', ''payer''], rows = [[Str ''15.01.2024'', Str ''Bob'']]\<rparr>
     = Inr \<lparr>columns = [''date'', ''payer'', ''amount'', ''payee'', ''purpose''],
            rows = [[(case to_datetime [Some ''15.01.2024''] 0 of Some t \<Rightarrow> Timestamp t | None \<Rightarrow> NaT),
                     Str ''Bob'', Float (Fin 0), Str [], Str []]]\<rparr>
   \<and> load_transactions to_datetime None
       \<lparr>columns = [''amount'', ''payer''], rows = [[Str ''5,00'', Str ''Bob'']]\<rparr>
     = Inr \<lparr>columns = [''amount'', ''payer'', ''date'', ''payee'', ''purpose''],
            rows = [[Float (Fin 5), Str ''Bob'',
                     (case to_datetime [Some []] 0 of Some t \<Rightarrow> Timestamp t | None \<Rightarrow> NaT),
                     Str [], Str []]]\<rparr>
   \<and> load_transactions to_datetime None
       \<lparr>columns = [''date'', ''amount''], rows = [[Str ''15.01.2024'', Missing]]\<rparr>
     = Inl (MissingColumns [''amount''])"
proof (intro conjI)
  show "load_transactions to_datetime None
       \<lparr>columns = [''date'', ''payer''], rows = [[Str ''15.01.2024'', Str ''Bob'']]\<rparr>
     = Inr \<lparr>columns = [''date'', ''payer'', ''amount'', ''payee'', ''purpose''],
            rows = [[(case to_datetime [Some ''15.01.2024''] 0 of Some t \<Rightarrow> Timestamp t | None \<Rightarrow> NaT),
                     Str ''Bob'', Float (Fin 0), Str [], Str []]]\<rparr>"
    by (simp add: frame_eval parse_german_amount_empty)
  have five: "parse_german_amount (Some ''5,00'') = Inr (Fin 5)" by code_simp
  show "load_transactions to_datetime None
       \<lparr>columns = [''amount'', ''payer''], rows = [[Str ''5,00'', Str ''Bob'']]\<rparr>
     = Inr \<lparr>columns = [''amount'', ''payer'', ''date'', ''payee'', ''purpose''],
            rows = [[Float (Fin 5), Str ''Bob'',
                     (case to_datetime [Some []] 0 of Some t \<Rightarrow> Timestamp t | None \<Rightarrow> NaT),
                     Str [], Str []]]\<rparr>"
    by (simp add: frame_eval parse_german_amount_empty five)
  show "load_transactions to_datetime None
       \<lparr>columns = [''date'', ''amount''], rows = [[Str ''15.01.2024'', Missing]]\<rparr>
     = Inl (MissingColumns [''amount''])"
    by (simp add: frame_eval parse_german_amount_empty)
qed

section \<open>The claim on unparseable dates\<close>

lemma nat_row_frame_summary:
  "fst (get_monthly_summary series_sum nat_row_frame) =
     \<lparr>columns = [''date'', ''amount'', ''payer'', ''payee'', ''purpose'', ''YearMonth''],
      rows = [[Timestamp \<lparr>t_year = 2024, t_month = 1, t_day = 15\<rparr>, Float (Fin 10),
                 Str ''Acme'', Str [], Str ''Pay'', Period 2024 1],
              [NaT, Float (Fin 5), Str ''Acme'', Str [], Str ''Pay'', NaT]]\<rparr>"
  by (simp add: get_monthly_summary_def nat_row_frame_def set_column_def column_def cell_of_def
      to_period_def Let_def)

lemmas details_eval =
  prepare_transaction_details_def month_details_def detail_entry_def strftime_md_def
  set_column_def column_def cell_of_def index_of_def to_period_def period_astype_str_def
  cell_eq_def row_amount_def unique_def pad4_def pad2_def digit_char_def py_str_def Let_def

text \<open>
  C9, as the code has it. The frame is a loaded ledger of two income rows, the second
  with a date that became \<open>NaT\<close>. The monthly summary drops that row and returns the
  bucket of the first. The detail assembly is run on the frame the summary left, as the
  main page does. When \<open>astype(str)\<close> makes the string \<open>NaT\<close> of the missing period, as
  pandas 2 does, the second row is selected for the month \<open>NaT\<close>, \<open>strftime\<close> is called on
  its \<open>NaT\<close> and raises \<open>ValueError\<close>, whatever the digest and the float printing are,
  once the annotations have loaded. When \<open>astype(str)\<close> keeps the period missing, as
  pandas 3 does, no row is selected for it and the assembly returns.
\<close>

theorem prepare_transaction_details_nat_raises:
  "snd (get_monthly_summary series_sum nat_row_frame)
     = [\<lparr>YearMonth = (2024, 1), Income = series_sum [Fin 10], Expenses = series_sum [],
          Net = series_sum [Fin 10]\<rparr>]
   \<and> prepare_transaction_details sha256_hexdigest float_str (Str ''NaT'') nul_ok store
         (fst (get_monthly_summary series_sum nat_row_frame))
     = (case load_annotations nul_ok store of Inl e \<Rightarrow> Inl e | Inr annotations \<Rightarrow> Inl ValueError)
   \<and> prepare_transaction_details sha256_hexdigest float_str (Str ''NaT'') nul_ok None
         (fst (get_monthly_summary series_sum nat_row_frame))
     = Inl ValueError
   \<and> prepare_transaction_details sha256_hexdigest float_str Missing nul_ok None
         (fst (get_monthly_summary series_sum nat_row_frame))
     = Inr [(Str ''2024-01'',
             [\<lparr>tx_hash = create_transaction_hash sha256_hexdigest (py_str float_str)
                           [Timestamp \<lparr>t_year = 2024, t_month = 1, t_day = 15\<rparr>, Float (Fin 10),
                            Str ''Acme'', Str [], Str ''Pay'', Str ''2024-01''],
               tx_date = ''01-15'', tx_amount = Fin 10, tx_party = ''Acme'', tx_purpose = ''Pay'',
               tx_category = [], tx_comment = []\<rparr>],
             []),
            (Missing, [], [])]"
proof (intro conjI)
  show "snd (get_monthly_summary series_sum nat_row_frame)
     = [\<lparr>YearMonth = (2024, 1), Income = series_sum [Fin 10], Expenses = series_sum [],
          Net = series_sum [Fin 10]\<rparr>]"
    by (simp add: get_monthly_summary_def nat_row_frame_def set_column_def column_def cell_of_def
        to_period_def period_keys_def summary_row_def group_amounts_def row_amount_def Let_def)
  show "prepare_transaction_details sha256_hexdigest float_str (Str ''NaT'') nul_ok store
         (fst (get_monthly_summary series_sum nat_row_frame))
     = (case load_annotations nul_ok store of Inl e \<Rightarrow> Inl e | Inr annotations \<Rightarrow> Inl ValueError)"
    unfolding nat_row_frame_summary
    by (cases "load_annotations nul_ok store") (simp_all add: details_eval)
  show "prepare_transaction_details sha256_hexdigest float_str (Str ''NaT'') nul_ok None
         (fst (get_monthly_summary series_sum nat_row_frame))
     = Inl ValueError"
    unfolding nat_row_frame_summary
    by (simp add: details_eval load_annotations_def)
  show "prepare_transaction_details sha256_hexdigest float_str Missing nul_ok None
         (fst (get_monthly_summary series_sum nat_row_frame))
     = Inr [(Str ''2024-01'',
             [\<lparr>tx_hash = create_transaction_hash sha256_hexdigest (py_str float_str)
                           [Timestamp \<lparr>t_year = 2024, t_month = 1, t_day = 15\<rparr>, Float (Fin 10),
                            Str ''Acme'', Str [], Str ''Pay'', Str ''2024-01''],
               tx_date = ''01-15'', tx_amount = Fin 10, tx_party = ''Acme'', tx_purpose = ''Pay'',
               tx_category = [], tx_comment = []\<rparr>],
             []),
            (Missing, [], [])]"
    unfolding nat_row_frame_summary
    by (simp add: details_eval load_annotations_def)
qed

section \<open>The claim on the monthly buckets\<close>

lemma exact_sum_split:
  "list_all is_fin x \<Longrightarrow>
     sum_list (map value_of x)
       = sum_list (map value_of (filter gt0 x)) + sum_list (map value_of (filter lt0 x))"
proof (induction x)
  case Nil
  then show ?case by simp
next
  case (Cons a x)
  then show ?case by (cases a) auto
qed

lemma zero_in_neither: "Fin 0 \<notin> set (filter gt0 x)" "Fin 0 \<notin> set (filter lt0 x)"
  by simp_all

text \<open>
  Writing the column \<open>YearMonth\<close> into a frame whose rows have one cell for each column
  leaves the amounts as they were, and the new column holds the month of each date.
\<close>

lemma map_of_zip_update_same:
  "length row = length cols \<Longrightarrow> c \<in> set cols \<Longrightarrow>
     map_of (zip cols (row[index_of c cols := v])) c = Some v"
proof (induction cols arbitrary: row)
  case Nil
  then show ?case by simp
next
  case (Cons x cols)
  then obtain r rs where row: "row = r # rs" by (cases row) auto
  show ?case
  proof (cases "x = c")
    case True
    then show ?thesis by (simp add: row index_of_def)
  next
    case False
    with Cons row show ?thesis by (simp add: index_of_def)
  qed
qed

lemma map_of_zip_update_other:
  "length row = length cols \<Longrightarrow> c' \<noteq> c \<Longrightarrow>
     map_of (zip cols (row[index_of c cols := v])) c' = map_of (zip cols row) c'"
proof (induction cols arbitrary: row)
  case Nil
  then show ?case by simp
next
  case (Cons x cols)
  then obtain r rs where row: "row = r # rs" by (cases row) auto
  show ?case
  proof (cases "x = c")
    case True
    with Cons row show ?thesis by (simp add: index_of_def)
  next
    case False
    with Cons row show ?thesis by (simp add: index_of_def)
  qed
qed

lemma map_of_zip_append_same:
  assumes "length row = length cols" and "c \<notin> set cols"
  shows "map_of (zip (cols @ [c]) (row @ [v])) c = Some v"
proof -
  have "c \<notin> dom (map_of (zip cols row))"
    using assms by (simp only: dom_map_of_zip [OF assms(1) [symmetric]] not_False_eq_True)
  then have "(map_of [(c, v)] ++ map_of (zip cols row)) c = map_of [(c, v)] c"
    by (rule map_add_dom_app_simps(3))
  with assms(1) show ?thesis
    by simp
qed

lemma map_of_zip_append_other:
  assumes "length row = length cols" and "c' \<noteq> c"
  shows "map_of (zip (cols @ [c]) (row @ [v])) c' = map_of (zip cols row) c'"
proof -
  have "c' \<notin> dom (map_of [(c, v)])"
    using assms(2) by simp
  then have "(map_of [(c, v)] ++ map_of (zip cols row)) c' = map_of (zip cols row) c'"
    by (rule map_add_dom_app_simps(2))
  with assms(1) show ?thesis
    by simp
qed

lemma cell_of_set_same:
  assumes "length row = length cols"
  shows "cell_of (if c \<in> set cols then cols else cols @ [c])
             (if c \<in> set cols then row[index_of c cols := v] else row @ [v]) c = v"
proof (cases "c \<in> set cols")
  case True
  with map_of_zip_update_same [OF assms True, of v] show ?thesis
    by (simp add: cell_of_def)
next
  case False
  with map_of_zip_append_same [OF assms False, of v] show ?thesis
    by (simp add: cell_of_def del: zip_append map_of_append)
qed

lemma cell_of_set_other:
  assumes "length row = length cols" and "c' \<noteq> c"
  shows "cell_of (if c \<in> set cols then cols else cols @ [c])
             (if c \<in> set cols then row[index_of c cols := v] else row @ [v]) c'
       = cell_of cols row c'"
proof (cases "c \<in> set cols")
  case True
  with map_of_zip_update_other [OF assms, of v] show ?thesis
    by (simp add: cell_of_def)
next
  case False
  with map_of_zip_append_other [OF assms, of v] show ?thesis
    by (simp add: cell_of_def del: zip_append map_of_append)
qed

lemma map2_map_same: "map2 f xs (map g xs) = map (\<lambda>x. f x (g x)) xs"
  by (induction xs) simp_all

lemma set_column_map:
  "set_column c (map g (rows df)) df =
     df\<lparr>columns := (if c \<in> set (columns df) then columns df else columns df @ [c]),
        rows := map (\<lambda>row. if c \<in> set (columns df) then row[index_of c (columns df) := g row]
                            else row @ [g row]) (rows df)\<rparr>"
  by (simp add: set_column_def map2_map_same)

lemma summary_frame_cells:
  assumes "frame_ok df" and "row \<in> set (rows df)"
  shows "cell_of (columns (set_column ''YearMonth'' (map g (rows df)) df))
           (if ''YearMonth'' \<in> set (columns df)
            then row[index_of ''YearMonth'' (columns df) := g row] else row @ [g row]) ''YearMonth''
         = g row"
    and "row_amount (columns (set_column ''YearMonth'' (map g (rows df)) df))
           (if ''YearMonth'' \<in> set (columns df)
            then row[index_of ''YearMonth'' (columns df) := g row] else row @ [g row])
         = row_amount (columns df) row"
proof -
  from assms have len: "length row = length (columns df)"
    by (auto simp: frame_ok_def list_all_iff)
  show "cell_of (columns (set_column ''YearMonth'' (map g (rows df)) df))
           (if ''YearMonth'' \<in> set (columns df)
            then row[index_of ''YearMonth'' (columns df) := g row] else row @ [g row]) ''YearMonth''
         = g row"
    unfolding set_column_map using cell_of_set_same [OF len, of "''YearMonth''" "g row"]
    by simp
  show "row_amount (columns (set_column ''YearMonth'' (map g (rows df)) df))
           (if ''YearMonth'' \<in> set (columns df)
            then row[index_of ''YearMonth'' (columns df) := g row] else row @ [g row])
         = row_amount (columns df) row"
    unfolding set_column_map row_amount_def
    using cell_of_set_other [OF len, of "''amount''" "''YearMonth''" "g row"]
    by simp
qed

lemma summary_frame_group:
  assumes "frame_ok df"
  shows "group_amounts (fst (get_monthly_summary series_sum df)) k = month_amounts df k"
    and "column (fst (get_monthly_summary series_sum df)) ''YearMonth''
           = map to_period (column df ''date'')"
proof -
  define g where "g = (\<lambda>row. to_period (cell_of (columns df) row ''date''))"
  define h where "h = (\<lambda>row. if ''YearMonth'' \<in> set (columns df)
                     then row[index_of ''YearMonth'' (columns df) := g row] else row @ [g row])"
  define df' where "df' = set_column ''YearMonth'' (map g (rows df)) df"
  have fst: "fst (get_monthly_summary series_sum df) = df'"
    by (simp add: get_monthly_summary_def df'_def g_def column_def Let_def comp_def)
  have rows': "rows df' = map h (rows df)"
    by (simp add: df'_def set_column_map h_def)
  have ym: "cell_of (columns df') (h row) ''YearMonth'' = g row" if "row \<in> set (rows df)" for row
    using summary_frame_cells(1) [OF assms that, of g] by (simp add: df'_def h_def)
  have am: "row_amount (columns df') (h row) = row_amount (columns df) row"
    if "row \<in> set (rows df)" for row
    using summary_frame_cells(2) [OF assms that, of g] by (simp add: df'_def h_def)
  have "group_amounts df' k
          = map (\<lambda>row. row_amount (columns df') (h row))
              (filter (\<lambda>row. cell_of (columns df') (h row) ''YearMonth'' = Period (fst k) (snd k))
                 (rows df))"
    by (simp add: group_amounts_def rows' filter_map comp_def)
  also have "\<dots> = map (\<lambda>row. row_amount (columns df') (h row))
              (filter (\<lambda>row. g row = Period (fst k) (snd k)) (rows df))"
    by (rule arg_cong [where f = "map _"], rule filter_cong) (simp_all add: ym)
  also have "\<dots> = map (row_amount (columns df))
              (filter (\<lambda>row. g row = Period (fst k) (snd k)) (rows df))"
    by (rule map_cong) (simp_all add: am)
  also have "\<dots> = month_amounts df k"
    by (simp add: month_amounts_def g_def)
  finally show "group_amounts (fst (get_monthly_summary series_sum df)) k = month_amounts df k"
    by (simp add: fst)
  have "column df' ''YearMonth'' = map g (rows df)"
    by (simp add: column_def rows' comp_def ym)
  then show "column (fst (get_monthly_summary series_sum df)) ''YearMonth''
           = map to_period (column df ''date'')"
    by (simp add: fst g_def column_def comp_def)
qed

lemma snd_get_monthly_summary:
  "snd (get_monthly_summary series_sum df)
     = map (summary_row series_sum (fst (get_monthly_summary series_sum df)))
         (sort (remdups (period_keys
            (column (fst (get_monthly_summary series_sum df)) ''YearMonth''))))"
  by (simp add: get_monthly_summary_def Let_def)

text \<open>
  C3, as the code has it. The frame is a loaded ledger, each row with one cell for each
  column. The aggregator returns one bucket for each month in which a date of the ledger
  lies, in ascending order, and none for the dates that are \<open>NaT\<close>. In every bucket,
  income is \<open>Series.sum()\<close> of the strictly positive amounts of the rows of the ledger
  whose date lies in that month, expenses is \<open>Series.sum()\<close> of the strictly negative
  ones, net is \<open>Series.sum()\<close> of all of them, whatever \<open>Series.sum()\<close> computes; an
  amount of zero is in neither of the first two lists. When the amounts of the bucket are
  finite, their exact values satisfy sum of all = sum of the positive + sum of the
  negative. The three floats are three separately rounded sums, and nothing more is said
  about net and income + expenses.
\<close>

theorem monthly_summary_buckets:
  "frame_ok df \<Longrightarrow>
     map YearMonth (snd (get_monthly_summary series_sum df))
       = sort (remdups (period_keys (map to_period (column df ''date''))))
     \<and> (\<forall>b\<in>set (snd (get_monthly_summary series_sum df)).
          (let x = month_amounts df (YearMonth b)
           in Income b = series_sum (filter gt0 x)
              \<and> Expenses b = series_sum (filter lt0 x)
              \<and> Net b = series_sum x
              \<and> Fin 0 \<notin> set (filter gt0 x) \<and> Fin 0 \<notin> set (filter lt0 x)
              \<and> (list_all is_fin x \<longrightarrow>
                   sum_list (map value_of x)
                     = sum_list (map value_of (filter gt0 x))
                       + sum_list (map value_of (filter lt0 x)))))"
proof (intro conjI ballI)
  assume ok: "frame_ok df"
  show "map YearMonth (snd (get_monthly_summary series_sum df))
       = sort (remdups (period_keys (map to_period (column df ''date''))))"
    unfolding snd_get_monthly_summary summary_frame_group(2) [OF ok]
    by (simp add: summary_row_def Let_def comp_def)
  fix b
  assume "b \<in> set (snd (get_monthly_summary series_sum df))"
  then obtain k where b: "b = summary_row series_sum (fst (get_monthly_summary series_sum df)) k"
    unfolding snd_get_monthly_summary by auto
  then have k: "YearMonth b = k" by (simp add: summary_row_def Let_def)
  show "let x = month_amounts df (YearMonth b)
           in Income b = series_sum (filter gt0 x)
              \<and> Expenses b = series_sum (filter lt0 x)
              \<and> Net b = series_sum x
              \<and> Fin 0 \<notin> set (filter gt0 x) \<and> Fin 0 \<notin> set (filter lt0 x)
              \<and> (list_all is_fin x \<longrightarrow>
                   sum_list (map value_of x)
                     = sum_list (map value_of (filter gt0 x))
                       + sum_list (map value_of (filter lt0 x)))"
    unfolding k Let_def
    using exact_sum_split [of "month_amounts df k"]
    by (simp add: b summary_row_def summary_frame_group(1) [OF ok] Let_def)
qed

theorem monthly_summary_buckets_witness:
  "frame_ok exact_frame
   \<and> map YearMonth (snd (get_monthly_summary sequential_sum exact_frame)) = [(2024, 1)]
   \<and> \<lparr>YearMonth = (2024, 1), Income = Fin (7 / 2), Expenses = Fin (- (1 / 2)), Net = Fin 3\<rparr>
       \<in> set (snd (get_monthly_summary sequential_sum exact_frame))
   \<and> month_amounts exact_frame (2024, 1) = [Fin (3 / 2), Fin (- (1 / 2)), Fin 0, Fin 2]
   \<and> sequential_sum (filter gt0 [Fin (3 / 2), Fin (- (1 / 2)), Fin 0, Fin 2]) = Fin (7 / 2)
   \<and> sequential_sum (filter lt0 [Fin (3 / 2), Fin (- (1 / 2)), Fin 0, Fin 2]) = Fin (- (1 / 2))
   \<and> sequential_sum [Fin (3 / 2), Fin (- (1 / 2)), Fin 0, Fin 2] = Fin 3"
proof -
  have ok: "frame_ok exact_frame"
    by (simp add: frame_ok_def exact_frame_def)
  have s: "snd (get_monthly_summary sequential_sum exact_frame)
             = [\<lparr>YearMonth = (2024, 1), Income = Fin (7 / 2), Expenses = Fin (- (1 / 2)), Net = Fin 3\<rparr>]"
    by code_simp
  have g: "month_amounts exact_frame (2024, 1)
             = [Fin (3 / 2), Fin (- (1 / 2)), Fin 0, Fin 2]"
    by code_simp
  from monthly_summary_buckets [of exact_frame sequential_sum] ok s g show ?thesis
    by (simp add: Let_def)
qed

text \<open>
  C3 as stated fails. The amounts \<open>0,1\<close>, \<open>-0,3\<close> and \<open>0,2\<close> of one month parse to the
  floats nearest to 0.1, -0.3 and 0.2. Income is the one float sum of the first and the
  third, expenses is the second. Net is \<open>2 ^ -55\<close>, both when the three are added from
  the left and when they are added from the right, while income + expenses is
  \<open>2 ^ -54\<close>; with one bucket, the sums over all buckets are these numbers.
\<close>

theorem monthly_summary_net_not_exact:
  "parse_german_amount (Some ''0,1'') = Inr (to_double (1 / 10))
   \<and> parse_german_amount (Some ''-0,3'') = Inr (to_double (- (3 / 10)))
   \<and> parse_german_amount (Some ''0,2'') = Inr (to_double (2 / 10))
   \<and> month_amounts rounding_frame (2024, 1)
       = [to_double (1 / 10), to_double (- (3 / 10)), to_double (2 / 10)]
   \<and> snd (get_monthly_summary sequential_sum rounding_frame)
       = [\<lparr>YearMonth = (2024, 1),
            Income = Fin (1351079888211149 / 2 ^ 52),
            Expenses = Fin (- (5404319552844595 / 2 ^ 54)),
            Net = Fin (1 / 2 ^ 55)\<rparr>]
   \<and> fadd (to_double (1 / 10)) (to_double (2 / 10)) = Fin (1351079888211149 / 2 ^ 52)
   \<and> to_double (- (3 / 10)) = Fin (- (5404319552844595 / 2 ^ 54))
   \<and> fadd (fadd (to_double (1 / 10)) (to_double (- (3 / 10)))) (to_double (2 / 10))
       = Fin (1 / 2 ^ 55)
   \<and> fadd (to_double (1 / 10)) (fadd (to_double (- (3 / 10))) (to_double (2 / 10)))
       = Fin (1 / 2 ^ 55)
   \<and> fadd (Fin (1351079888211149 / 2 ^ 52)) (Fin (- (5404319552844595 / 2 ^ 54))) = Fin (1 / 2 ^ 54)
   \<and> Fin (1 / 2 ^ 55) \<noteq> Fin (1 / 2 ^ 54)
   \<and> sequential_sum (map Net (snd (get_monthly_summary sequential_sum rounding_frame)))
       = Fin (1 / 2 ^ 55)
   \<and> fadd (sequential_sum (map Income (snd (get_monthly_summary sequential_sum rounding_frame))))
           (sequential_sum (map Expenses (snd (get_monthly_summary sequential_sum rounding_frame))))
       = Fin (1 / 2 ^ 54)"
  by code_simp

end
